theory Spec2Isabelle
  imports Complex_Main "HOL-Library.Sublist"
begin

section \<open>The dashboard script \<open>app.py\<close>: data model\<close>

text \<open>
  The development embeds the function \<open>main\<close> of \<open>app.py\<close>. The Streamlit calls
  append elements to the page, the connection answers SQL strings with data frames, and
  an exception ends the run. Everything the script shows is recorded in order in the field
  \<open>out\<close> of the state, every call of \<open>conn.query\<close> in the field \<open>issued\<close>.

  The module-level lines of the file (page configuration, style sheet and the guard
  \<open>if _name_ == "_main_": main()\<close>) lie outside \<open>main\<close> and are not part of the model.
\<close>

subsection \<open>Query results\<close>

text \<open>
  A cell of a query result, as pandas hands it to the script: an integer (what \<open>COUNT\<close>
  yields), a finite float (by its exact value), a float that is \<open>nan\<close> or an infinity
  (\<open>VInf True\<close> is the negative one), a text, or \<open>None\<close> for an SQL \<open>NULL\<close>.
\<close>

datatype cell = VInt int | VNum rat | VNaN | VInf bool | VStr string | VNone

record dataframe =
  df_columns :: "string list"
  df_rows :: "cell list list"

text \<open>
  The exceptions that occur: those of Python, a failure of the database behind
  \<open>conn.query\<close>, a failure of \<open>st.connection\<close> itself (\<open>ConfigError\<close>, for instance no
  connection configured in the secrets), and the exception by which \<open>st.stop()\<close> ends
  the run.
\<close>

datatype error =
  IndexError | TypeError | ValueError | OverflowError | DatabaseError | ConfigError | StopScript

text \<open>\<open>df.empty\<close>: an axis of length zero.\<close>

definition df_empty :: "dataframe \<Rightarrow> bool" where
  "df_empty df = (df_columns df = [] \<or> df_rows df = [])"

text \<open>\<open>df.iloc[0,0]\<close>: the first cell of the first row; out of bounds raises.\<close>

definition iloc00 :: "dataframe \<Rightarrow> error + cell" where
  "iloc00 df =
     (case df_rows df of
        [] \<Rightarrow> Inl IndexError
      | r # _ \<Rightarrow> (case r of [] \<Rightarrow> Inl IndexError | c # _ \<Rightarrow> Inr c))"

text \<open>
  The connection object: \<open>conn.query(sql, ttl=t)\<close> answers with a data frame or raises.
\<close>

type_synonym conn = "string \<Rightarrow> nat \<Rightarrow> error + dataframe"

text \<open>
  What the script gets from outside: the outcome of \<open>st.connection\<close>, and the text that
  Python's general number format gives for a finite float (\<open>str(x)\<close> when
  the flag is \<open>False\<close>, \<open>format(x, ',')\<close> when it is \<open>True\<close>). The latter belongs to the
  interpreter and is taken as a parameter.
\<close>

record env =
  connection :: "error + conn"
  general_format :: "bool \<Rightarrow> rat \<Rightarrow> string"

subsection \<open>Python's number formatting\<close>

definition digit_char :: "nat \<Rightarrow> char" where
  "digit_char d = ''0123456789'' ! (d mod 10)"

function str_nat :: "nat \<Rightarrow> string" where
  "str_nat n = (if n < 10 then [digit_char n] else str_nat (n div 10) @ [digit_char (n mod 10)])"
  by pat_completeness auto
termination
  by (relation "measure (\<lambda>n. n)") auto

declare str_nat.simps [simp del]

definition str_int :: "int \<Rightarrow> string" where
  "str_int i = (if i < 0 then ''-'' else '''') @ str_nat (nat \<bar>i\<bar>)"

text \<open>The \<open>,\<close> option: a comma before every group of three digits, from the right.\<close>

function commas :: "string \<Rightarrow> string" where
  "commas ds =
     (if length ds \<le> 3 then ds
      else commas (take (length ds - 3) ds) @ '','' @ drop (length ds - 3) ds)"
  by pat_completeness auto
termination
  by (relation "measure length") auto

declare commas.simps [simp del]

definition round_half_even :: "rat \<Rightarrow> int" where
  "round_half_even x =
     (let f = \<lfloor>x\<rfloor>; d = x - of_int f
      in if d < 1 / 2 then f
         else if 1 / 2 < d then f + 1
         else if even f then f else f + 1)"

text \<open>
  The presentation type \<open>.2f\<close>: sign, integer digits (grouped when \<open>,\<close> is given), a point
  and exactly two decimals of the value rounded half to even.
\<close>

definition fixed2 :: "bool \<Rightarrow> rat \<Rightarrow> string" where
  "fixed2 grp x =
     (let c = nat (round_half_even (\<bar>x\<bar> * 100));
          ip = str_nat (c div 100);
          fp = [digit_char (c mod 100 div 10), digit_char (c mod 10)]
      in (if x < 0 then ''-'' else '''') @ (if grp then commas ip else ip) @ ''.'' @ fp)"

text \<open>
  Under the presentation type \<open>f\<close> Python converts an integer to a float first: the nearest
  double, ties to the even mantissa, and \<open>OverflowError\<close> beyond the range of doubles.
  \<open>float_of_int i\<close> is the (integer) value of that double.
\<close>

function bit_length :: "nat \<Rightarrow> nat" where
  "bit_length n = (if n = 0 then 0 else Suc (bit_length (n div 2)))"
  by pat_completeness auto
termination
  by (relation "measure (\<lambda>n. n)") auto

declare bit_length.simps [simp del]

definition float_of_int :: "int \<Rightarrow> int" where
  "float_of_int i =
     (let a = nat \<bar>i\<bar>; k = bit_length a
      in if k \<le> 53 then i
         else
           (let sh = k - 53; q = a div 2 ^ sh; r = a mod 2 ^ sh; h = 2 ^ (sh - 1);
                q' = (if h < r \<or> (r = h \<and> odd q) then q + 1 else q)
            in sgn i * int (q' * 2 ^ sh)))"

definition fixed2_int :: "bool \<Rightarrow> int \<Rightarrow> error + string" where
  "fixed2_int grp i =
     (let f = float_of_int i
      in if 2 ^ 1024 \<le> \<bar>f\<bar> then Inl OverflowError else Inr (fixed2 grp (of_int f)))"

text \<open>How a float that is no number is written, under every format specification.\<close>

definition inf_text :: "bool \<Rightarrow> string" where
  "inf_text neg = (if neg then ''-inf'' else ''inf'')"

text \<open>
  The four format specifications that occur in the script: none (\<open>{x}\<close>), \<open>{x:,}\<close>,
  \<open>{x:.2f}\<close> and \<open>{x:,.2f}\<close>.
\<close>

datatype fspec = Plain | Comma | Fixed2 | CommaFixed2

fun py_format :: "(bool \<Rightarrow> rat \<Rightarrow> string) \<Rightarrow> fspec \<Rightarrow> cell \<Rightarrow> error + string" where
  "py_format g Plain (VInt i) = Inr (str_int i)"
| "py_format g Plain (VNum r) = Inr (g False r)"
| "py_format g Plain (VStr s) = Inr s"
| "py_format g Plain VNone = Inr ''None''"
| "py_format g Comma (VInt i) = Inr ((if i < 0 then ''-'' else '''') @ commas (str_nat (nat \<bar>i\<bar>)))"
| "py_format g Comma (VNum r) = Inr (g True r)"
| "py_format g Fixed2 (VInt i) = fixed2_int False i"
| "py_format g Fixed2 (VNum r) = Inr (fixed2 False r)"
| "py_format g CommaFixed2 (VInt i) = fixed2_int True i"
| "py_format g CommaFixed2 (VNum r) = Inr (fixed2 True r)"
| "py_format g _ VNaN = Inr ''nan''"
| "py_format g _ (VInf neg) = Inr (inf_text neg)"
| "py_format g _ (VStr s) = Inl ValueError"
| "py_format g _ VNone = Inl TypeError"

subsection \<open>The page and the script monad\<close>

datatype place = Page | Sidebar | Column nat

datatype chart_kind = Bar | Line

record figure =
  fig_kind :: chart_kind
  fig_data :: dataframe
  fig_x :: string
  fig_y :: string
  fig_title :: string
  fig_tickangle :: "int option"

datatype widget =
    Title string
  | Markdown string
  | Success string
  | ErrorBox string string
  | Selectbox string "string list"
  | Header string
  | Subheader string
  | Info string
  | Columns nat
  | Metric string string
  | PlotlyChart figure
  | Dataframe dataframe

record state =
  out :: "(place \<times> widget) list"
  issued :: "(string \<times> nat) list"

definition init :: state where
  "init = \<lparr>out = [], issued = []\<rparr>"

type_synonym 'a io = "state \<Rightarrow> (error + 'a) \<times> state"

definition ret :: "'a \<Rightarrow> 'a io" where
  "ret x s = (Inr x, s)"

definition raise :: "error \<Rightarrow> 'a io" where
  "raise e s = (Inl e, s)"

definition lift :: "error + 'a \<Rightarrow> 'a io" where
  "lift r s = (r, s)"

definition bind :: "'a io \<Rightarrow> ('a \<Rightarrow> 'b io) \<Rightarrow> 'b io" where
  "bind m f s = (case m s of (Inl e, s') \<Rightarrow> (Inl e, s') | (Inr x, s') \<Rightarrow> f x s')"

fun block :: "unit io list \<Rightarrow> unit io" where
  "block [] = ret ()"
| "block (m # ms) = bind m (\<lambda>_. block ms)"

definition emit :: "place \<Rightarrow> widget \<Rightarrow> unit io" where
  "emit p w s = (Inr (), s\<lparr>out := out s @ [(p, w)]\<rparr>)"

definition conn_query :: "conn \<Rightarrow> string \<Rightarrow> nat \<Rightarrow> dataframe io" where
  "conn_query conn sql ttl s = (conn sql ttl, s\<lparr>issued := issued s @ [(sql, ttl)]\<rparr>)"

text \<open>
  \<open>px.bar\<close> and \<open>px.line\<close> build a figure from two named columns of the frame and raise
  when the frame has no column of that name.
\<close>

definition px :: "chart_kind \<Rightarrow> dataframe \<Rightarrow> string \<Rightarrow> string \<Rightarrow> string \<Rightarrow> error + figure" where
  "px k df x y title =
     (if x \<in> set (df_columns df) \<and> y \<in> set (df_columns df)
      then Inr \<lparr>fig_kind = k, fig_data = df, fig_x = x, fig_y = y, fig_title = title,
                fig_tickangle = None\<rparr>
      else Inl ValueError)"

definition update_xaxes :: "int \<Rightarrow> figure \<Rightarrow> figure" where
  "update_xaxes a fig = fig\<lparr>fig_tickangle := Some a\<rparr>"

text \<open>
  The pattern of every metric in the script,
  \<^verbatim>\<open>with col: df = conn.query(sql, ttl=t); st.metric(label, f"pre{df.iloc[0,0]:spec}suf")\<close>.
\<close>

definition metric_panel ::
  "env \<Rightarrow> conn \<Rightarrow> place \<Rightarrow> string \<Rightarrow> nat \<Rightarrow> string \<Rightarrow> string \<Rightarrow> fspec \<Rightarrow> string \<Rightarrow> unit io" where
  "metric_panel e conn p sql ttl label pre spec suf =
     bind (conn_query conn sql ttl) (\<lambda>df.
     bind (lift (iloc00 df)) (\<lambda>c.
     bind (lift (py_format (general_format e) spec c)) (\<lambda>txt.
     emit p (Metric label (pre @ txt @ suf)))))"

section \<open>The script\<close>

subsection \<open>Texts of the page\<close>

definition title_text :: string where
  "title_text = [CHR 0xF0, CHR 0x9F, CHR 0x9B, CHR 0x92] @ '' E-Commerce Data Analysis Dashboard''"

definition connected_text :: string where
  "connected_text = [CHR 0xE2, CHR 0x9C, CHR 0x85] @ '' Connected to database successfully!''"

definition unable_text :: string where
  "unable_text = [CHR 0xE2, CHR 0x9D, CHR 0x8C] @
     '' Unable to connect to database. Please check your connection settings in .streamlit/secrets.toml''"

definition unable_icon :: string where
  "unable_icon = [CHR 0xF0, CHR 0x9F, CHR 0x9A, CHR 0xA8]"

definition bullet :: string where
  "bullet = [CHR 0xE2, CHR 0x80, CHR 0xA2]"

definition data_note :: string where
  "data_note = '' *Data Note*: 'Unique Orders' shows distinct business transactions, while 'Order Records' shows total database rows (including duplicates).''"

definition duplicate_note :: string where
  "duplicate_note = '' *Note*: Each order appears multiple times in the database. This could be due to order updates, multiple items, or data import issues.''"

subsection \<open>The SQL texts, as the script writes them\<close>

definition sql_total_customers :: string where
  "sql_total_customers = ''SELECT COUNT(customer_id) FROM customers''"

definition sql_unique_orders :: string where
  "sql_unique_orders = ''SELECT COUNT(DISTINCT order_id) FROM orders''"

definition sql_order_records :: string where
  "sql_order_records = ''SELECT COUNT(*) FROM orders''"

definition sql_total_revenue :: string where
  "sql_total_revenue = ''SELECT ROUND(SUM(payment_value)::NUMERIC, 2) FROM payments''"

definition sql_active_customers :: string where
  "sql_active_customers = ''SELECT COUNT(DISTINCT customer_id) FROM orders''"

definition sql_avg_order_value :: string where
  "sql_avg_order_value = ''SELECT ROUND(AVG(payment_value)::NUMERIC, 2) FROM payments''"

definition sql_orders_per_customer :: string where
  "sql_orders_per_customer =
     ''SELECT ROUND((COUNT(DISTINCT order_id) * 1.0 / COUNT(DISTINCT customer_id))::NUMERIC, 2) FROM orders''"

definition sql_total_products :: string where
  "sql_total_products = ''SELECT COUNT(DISTINCT product_id) FROM products''"

definition sql_duplicate_factor :: string where
  "sql_duplicate_factor =
     ''SELECT ROUND((COUNT(*) * 1.0 / COUNT(DISTINCT order_id))::NUMERIC, 1) FROM orders''"

definition sql_customer_states :: string where
  "sql_customer_states =
     ''\<newline>'' @
     ''        SELECT customer_state AS \"State\", COUNT(*) AS \"Customer Count\"\<newline>'' @
     ''        FROM customers\<newline>'' @
     ''        GROUP BY customer_state\<newline>'' @
     ''        ORDER BY \"Customer Count\" DESC\<newline>'' @
     ''        LIMIT 10\<newline>'' @
     ''        ''"

definition sql_orders_by_status :: string where
  "sql_orders_by_status =
     ''\<newline>'' @
     ''        SELECT order_status AS \"Status\", COUNT(DISTINCT order_id) AS \"Count\" \<newline>'' @
     ''        FROM orders \<newline>'' @
     ''        GROUP BY order_status \<newline>'' @
     ''        ORDER BY \"Count\" DESC\<newline>'' @
     ''        ''"

definition sql_orders_over_time :: string where
  "sql_orders_over_time =
     ''\<newline>'' @
     ''        SELECT \<newline>'' @
     ''            TO_CHAR(order_purchase_timestamp::TIMESTAMP, 'YYYY-MM') AS \"Month\",\<newline>'' @
     ''            COUNT(DISTINCT order_id) AS \"Order Count\"\<newline>'' @
     ''        FROM orders\<newline>'' @
     ''        GROUP BY \"Month\"\<newline>'' @
     ''        ORDER BY \"Month\"\<newline>'' @
     ''        ''"

definition sql_category_revenue :: string where
  "sql_category_revenue =
     ''\<newline>'' @
     ''        SELECT \<newline>'' @
     ''            p.\"product category\" AS \"Category\",\<newline>'' @
     ''            ROUND(SUM(pay.payment_value)::NUMERIC, 2) AS \"Revenue\"\<newline>'' @
     ''        FROM products p\<newline>'' @
     ''        JOIN order_items oi ON p.product_id = oi.product_id\<newline>'' @
     ''        JOIN payments pay ON oi.order_id = pay.order_id\<newline>'' @
     ''        GROUP BY \"Category\"\<newline>'' @
     ''        ORDER BY \"Revenue\" DESC\<newline>'' @
     ''        LIMIT 10\<newline>'' @
     ''        ''"

definition sql_monthly :: string where
  "sql_monthly =
     ''\<newline>'' @
     ''        SELECT \<newline>'' @
     ''            TO_CHAR(o.order_purchase_timestamp::TIMESTAMP, 'YYYY-MM') AS \"Month\",\<newline>'' @
     ''            ROUND(SUM(p.payment_value)::NUMERIC, 2) AS \"Revenue\",\<newline>'' @
     ''            COUNT(DISTINCT o.order_id) AS \"Order Count\"\<newline>'' @
     ''        FROM (SELECT DISTINCT order_id, order_purchase_timestamp FROM orders) o\<newline>'' @
     ''        JOIN payments p ON o.order_id = p.order_id\<newline>'' @
     ''        GROUP BY \"Month\"\<newline>'' @
     ''        ORDER BY \"Month\"\<newline>'' @
     ''        ''"

subsection \<open>The five branches of the dispatch\<close>

definition overview :: "env \<Rightarrow> conn \<Rightarrow> unit io" where
  "overview e conn = block [
     emit Page (Header ''Dashboard Overview''),
     emit Page (Columns 4),
     metric_panel e conn (Column 1) sql_total_customers 600 ''Total Customers'' '''' Comma '''',
     metric_panel e conn (Column 2) sql_unique_orders 600 ''Unique Orders'' '''' Comma '''',
     metric_panel e conn (Column 3) sql_order_records 600 ''Order Records'' '''' Comma '''',
     metric_panel e conn (Column 4) sql_total_revenue 600 ''Total Revenue'' ''$'' CommaFixed2 '''',
     emit Page (Markdown ''---''),
     emit Page (Info data_note),
     emit Page (Columns 2),
     metric_panel e conn (Column 1) sql_active_customers 600 ''Active Customers'' '''' Comma '''',
     metric_panel e conn (Column 2) sql_avg_order_value 600 ''Avg Order Value'' ''$'' CommaFixed2 '''',
     emit Page (Markdown ''###  About This Dashboard''),
     emit Page (Markdown ''This dashboard analyzes e-commerce data including:''),
     emit Page (Markdown (bullet @ '' *Customer Demographics*: Cities, states, and customer distribution'')),
     emit Page (Markdown (bullet @ '' *Order Patterns*: Monthly trends, seasonal analysis'')),
     emit Page (Markdown (bullet @ '' *Sales Performance*: Category-wise sales, revenue analysis'')),
     emit Page (Markdown (bullet @ '' *Business Metrics*: Growth rates, retention, top performers'')),
     emit Page (Markdown ''Navigate through different sections using the sidebar to explore various aspects of the data.'')]"

definition customer_analysis :: "conn \<Rightarrow> unit io" where
  "customer_analysis conn = block [
     emit Page (Header ''Customer Analysis''),
     bind (conn_query conn sql_customer_states 600) (\<lambda>df.
       if \<not> df_empty df then
         bind (lift (px Bar df ''State'' ''Customer Count'' ''Top 10 States by Customer Count'')) (\<lambda>fig.
         block [emit Page (PlotlyChart fig), emit Page (Dataframe df)])
       else ret ())]"

definition order_analysis :: "env \<Rightarrow> conn \<Rightarrow> unit io" where
  "order_analysis e conn = block [
     emit Page (Header ''Order Analysis''),
     emit Page (Subheader ''Order Statistics''),
     emit Page (Columns 4),
     metric_panel e conn (Column 1) sql_unique_orders 600 ''Unique Orders'' '''' Comma '''',
     metric_panel e conn (Column 2) sql_orders_per_customer 600 ''Orders per Customer'' '''' Fixed2 '''',
     metric_panel e conn (Column 3) sql_avg_order_value 600 ''Avg Order Value'' ''$'' CommaFixed2 '''',
     metric_panel e conn (Column 4) sql_total_products 600 ''Total Products'' '''' Comma '''',
     emit Page (Subheader '' Data Quality''),
     emit Page (Columns 2),
     metric_panel e conn (Column 1) sql_order_records 600 ''Order Records'' '''' Comma '''',
     metric_panel e conn (Column 2) sql_duplicate_factor 600 ''Duplicate Factor'' '''' Plain ''x'',
     emit Page (Info duplicate_note),
     emit Page (Subheader '' Orders by Status''),
     bind (conn_query conn sql_orders_by_status 600) (\<lambda>df.
       if \<not> df_empty df then
         bind (lift (px Bar df ''Status'' ''Count'' ''Unique Orders by Status'')) (\<lambda>fig.
         emit Page (PlotlyChart (update_xaxes 45 fig)))
       else ret ()),
     emit Page (Subheader ([CHR 0xF0, CHR 0x9F, CHR 0x93, CHR 0x85] @ '' Orders Over Time'')),
     bind (conn_query conn sql_orders_over_time 600) (\<lambda>df.
       if \<not> df_empty df then
         bind (lift (px Line df ''Month'' ''Order Count'' ''Unique Orders Over Time'')) (\<lambda>fig.
         emit Page (PlotlyChart fig))
       else ret ())]"

definition sales_revenue :: "conn \<Rightarrow> unit io" where
  "sales_revenue conn = block [
     emit Page (Header ''Sales & Revenue Analysis''),
     bind (conn_query conn sql_category_revenue 600) (\<lambda>df.
       if \<not> df_empty df then
         bind (lift (px Bar df ''Category'' ''Revenue'' ''Revenue by Product Category'')) (\<lambda>fig.
         block [emit Page (PlotlyChart (update_xaxes 45 fig)), emit Page (Dataframe df)])
       else ret ())]"

definition time_series :: "conn \<Rightarrow> unit io" where
  "time_series conn = block [
     emit Page (Header ''Time Series Analysis''),
     bind (conn_query conn sql_monthly 600) (\<lambda>df.
       if \<not> df_empty df then block [
         emit Page (Columns 2),
         bind (lift (px Line df ''Month'' ''Revenue'' ''Monthly Revenue Trend'')) (\<lambda>fig1.
           emit (Column 1) (PlotlyChart fig1)),
         bind (lift (px Line df ''Month'' ''Order Count'' ''Monthly Order Count'')) (\<lambda>fig2.
           emit (Column 2) (PlotlyChart fig2)),
         emit Page (Dataframe df)]
       else ret ())]"

subsection \<open>\<open>main\<close>\<close>

text \<open>The values of the selection control, in the order of the script.\<close>

definition analysis_options :: "string list" where
  "analysis_options =
     ['' Overview'', '' Customer Analysis'', '' Order Analysis'', '' Sales & Revenue'',
      '' Time Series Analysis'']"

text \<open>
  The \<open>try\<close> block: \<open>st.connection\<close> either gives the connection, and the success notice is
  shown, or raises, and the handler shows the error box and calls \<open>st.stop()\<close>, which ends
  the run.
\<close>

definition acquire :: "env \<Rightarrow> conn io" where
  "acquire e =
     (case connection e of
        Inr conn \<Rightarrow> bind (emit Page (Success connected_text)) (\<lambda>_. ret conn)
      | Inl _ \<Rightarrow> bind (emit Page (ErrorBox unable_text unable_icon)) (\<lambda>_. raise StopScript))"

text \<open>The chain \<open>if analysis_type == ... elif ...\<close>; it has no \<open>else\<close>.\<close>

definition dispatch :: "env \<Rightarrow> conn \<Rightarrow> string \<Rightarrow> unit io" where
  "dispatch e conn analysis_type =
     (if analysis_type = '' Overview'' then overview e conn
      else if analysis_type = '' Customer Analysis'' then customer_analysis conn
      else if analysis_type = '' Order Analysis'' then order_analysis e conn
      else if analysis_type = '' Sales & Revenue'' then sales_revenue conn
      else if analysis_type = '' Time Series Analysis'' then time_series conn
      else ret ())"

definition footer :: "unit io" where
  "footer = block [
     emit Page (Markdown ''---''),
     emit Page (Markdown (''### '' @ [CHR 0xF0, CHR 0x9F, CHR 0x93, CHR 0x8A] @ '' Dashboard created using Streamlit'')),
     emit Page (Markdown ''Data source: E-commerce PostgreSQL Database''),
     emit Page (Markdown ''---''),
     emit Page (Markdown (''### '' @ [CHR 0xF0, CHR 0x9F, CHR 0x91, CHR 0xA8, CHR 0xE2, CHR 0x80, CHR 0x8D,
        CHR 0xF0, CHR 0x9F, CHR 0x92, CHR 0xBB] @ '' Created by Punarbasu Chakraborty'')),
     emit Page (Columns 3),
     emit (Column 1) (Markdown ([CHR 0xF0, CHR 0x9F, CHR 0x94, CHR 0x97] @ '' *LinkedIn*'')),
     emit (Column 1) (Markdown ''[Connect with me](https://linkedin.com/in/punarbasu-chakraborty-628566252/)''),
     emit (Column 2) (Markdown ([CHR 0xF0, CHR 0x9F, CHR 0x90, CHR 0x99] @ '' *GitHub*'')),
     emit (Column 2) (Markdown ''[View my projects](https://github.com/punarchakra02)''),
     emit (Column 3) (Markdown ([CHR 0xF0, CHR 0x9F, CHR 0x93, CHR 0xA7] @ '' *Email*'')),
     emit (Column 3) (Markdown ''[Contact me](mailto:punarbasu02chakra@gmail.com)''),
     emit Page (Markdown ''---''),
     emit Page (Markdown (''Built with '' @ [CHR 0xE2, CHR 0x9D, CHR 0xA4] @ '' using Python, SQL & Streamlit''))]"

text \<open>
  \<open>main\<close>, with the value \<open>sel\<close> that \<open>st.sidebar.selectbox\<close> returns as the one input of
  the user.
\<close>

definition main :: "env \<Rightarrow> string \<Rightarrow> unit io" where
  "main e sel = block [
     emit Page (Title title_text),
     emit Page (Markdown ''---''),
     bind (acquire e) (\<lambda>conn. block [
       emit Sidebar (Title '' Navigation''),
       emit Sidebar (Selectbox ''Choose Analysis Type:'' analysis_options),
       dispatch e conn sel,
       footer])]"

text \<open>One run of the script on an empty page.\<close>

definition run_main :: "env \<Rightarrow> string \<Rightarrow> (error + unit) \<times> state" where
  "run_main e sel = main e sel init"

section \<open>Properties and sample environments\<close>

subsection \<open>The queries of each report\<close>

text \<open>
  The table of the reports: for each value of the selection control, the SQL texts of its
  branch in the order of the script. The theorems below show that \<open>main\<close> issues these.
\<close>

definition report_queries :: "string \<Rightarrow> string list" where
  "report_queries sel =
     (if sel = '' Overview'' then
        [sql_total_customers, sql_unique_orders, sql_order_records, sql_total_revenue,
         sql_active_customers, sql_avg_order_value]
      else if sel = '' Customer Analysis'' then [sql_customer_states]
      else if sel = '' Order Analysis'' then
        [sql_unique_orders, sql_orders_per_customer, sql_avg_order_value, sql_total_products,
         sql_order_records, sql_duplicate_factor, sql_orders_by_status, sql_orders_over_time]
      else if sel = '' Sales & Revenue'' then [sql_category_revenue]
      else if sel = '' Time Series Analysis'' then [sql_monthly]
      else [])"

definition plan :: "string \<Rightarrow> (string \<times> nat) list" where
  "plan sel = map (\<lambda>q. (q, 600)) (report_queries sel)"

text \<open>What is on the page before the dispatch, when the connection is there.\<close>

definition page_head :: "(place \<times> widget) list" where
  "page_head =
     [(Page, Title title_text), (Page, Markdown ''---''), (Page, Success connected_text),
      (Sidebar, Title '' Navigation''),
      (Sidebar, Selectbox ''Choose Analysis Type:'' analysis_options)]"

subsection \<open>Invariants of a script\<close>

text \<open>
  \<open>consumes m qs qs'\<close>: started with the queries \<open>qs\<close> still to come, \<open>m\<close> issues them in
  order and leaves \<open>qs'\<close>; a run that raises has issued a prefix of \<open>qs\<close>.
\<close>

definition consumes :: "'a io \<Rightarrow> (string \<times> nat) list \<Rightarrow> (string \<times> nat) list \<Rightarrow> bool" where
  "consumes m qs qs' \<longleftrightarrow>
     (\<forall>s. \<exists>l. issued (snd (m s)) = issued s @ l \<and>
        (case fst (m s) of Inr _ \<Rightarrow> qs = l @ qs' | Inl _ \<Rightarrow> prefix l qs))"

text \<open>\<open>grows m\<close>: \<open>m\<close> only appends to the page.\<close>

definition grows :: "'a io \<Rightarrow> bool" where
  "grows m \<longleftrightarrow> (\<forall>s. prefix (out s) (out (snd (m s))))"

text \<open>\<open>keeps P m\<close>: when every element of the page satisfies \<open>P\<close>, it does so after \<open>m\<close>.\<close>

definition keeps :: "(widget \<Rightarrow> bool) \<Rightarrow> 'a io \<Rightarrow> bool" where
  "keeps P m \<longleftrightarrow>
     (\<forall>s :: state. (\<forall>x \<in> set (out s). P (snd x)) \<longrightarrow>
        (\<forall>x \<in> set (out (snd (m s))). P (snd x)))"

subsection \<open>Charts, tables and metrics on the page\<close>

text \<open>What the footer puts on the page.\<close>

definition page_foot :: "(place \<times> widget) list" where
  "page_foot = out (snd (footer init))"

text \<open>The heading of the last panel of the order report.\<close>

definition time_heading :: string where
  "time_heading = [CHR 0xF0, CHR 0x9F, CHR 0x93, CHR 0x85] @ '' Orders Over Time''"

text \<open>A chart or a table on the page shows a frame that is not empty.\<close>

fun shows_data :: "widget \<Rightarrow> bool" where
  "shows_data (PlotlyChart fig) = (\<not> df_empty (fig_data fig))"
| "shows_data (Dataframe df) = (\<not> df_empty df)"
| "shows_data _ = True"

fun is_chart :: "widget \<Rightarrow> bool" where
  "is_chart (PlotlyChart fig) = True"
| "is_chart (Dataframe df) = True"
| "is_chart _ = False"

text \<open>
  The answer of the connection lets a metric be shown: a frame with a first cell that the
  format specification accepts.
\<close>

definition metric_ready :: "(bool \<Rightarrow> rat \<Rightarrow> string) \<Rightarrow> fspec \<Rightarrow> error + dataframe \<Rightarrow> bool" where
  "metric_ready g spec r =
     (case r of
        Inl _ \<Rightarrow> False
      | Inr df \<Rightarrow>
          (case iloc00 df of
             Inl _ \<Rightarrow> False
           | Inr c \<Rightarrow> (case py_format g spec c of Inl _ \<Rightarrow> False | Inr _ \<Rightarrow> True)))"

text \<open>The six metrics of the order report can be shown.\<close>

definition order_metrics_ready :: "env \<Rightarrow> conn \<Rightarrow> bool" where
  "order_metrics_ready e conn \<longleftrightarrow>
     metric_ready (general_format e) Comma (conn sql_unique_orders 600) \<and>
     metric_ready (general_format e) Fixed2 (conn sql_orders_per_customer 600) \<and>
     metric_ready (general_format e) CommaFixed2 (conn sql_avg_order_value 600) \<and>
     metric_ready (general_format e) Comma (conn sql_total_products 600) \<and>
     metric_ready (general_format e) Comma (conn sql_order_records 600) \<and>
     metric_ready (general_format e) Plain (conn sql_duplicate_factor 600)"





text \<open>
  The two charts of the order report, as the script builds them from a frame, and what is
  shown of each: nothing for an empty frame.
\<close>

definition status_chart :: "dataframe \<Rightarrow> widget" where
  "status_chart d =
     PlotlyChart \<lparr>fig_kind = Bar, fig_data = d, fig_x = ''Status'', fig_y = ''Count'',
       fig_title = ''Unique Orders by Status'', fig_tickangle = Some 45\<rparr>"

definition time_chart :: "dataframe \<Rightarrow> widget" where
  "time_chart d =
     PlotlyChart \<lparr>fig_kind = Line, fig_data = d, fig_x = ''Month'', fig_y = ''Order Count'',
       fig_title = ''Unique Orders Over Time'', fig_tickangle = None\<rparr>"

definition status_charts :: "dataframe \<Rightarrow> widget list" where
  "status_charts d = (if df_empty d then [] else [status_chart d])"

definition time_charts :: "dataframe \<Rightarrow> widget list" where
  "time_charts d = (if df_empty d then [] else [time_chart d])"

subsection \<open>Sample environments\<close>

text \<open>
  A connection that answers from a table of frames and raises for any other text, and
  environments built from it. The general number format of the samples is a stand-in.
\<close>

definition table_conn :: "(string \<times> dataframe) list \<Rightarrow> conn" where
  "table_conn tbl sql ttl =
     (case map_of tbl sql of Some df \<Rightarrow> Inr df | None \<Rightarrow> Inl DatabaseError)"

definition sample_env :: "(string \<times> dataframe) list \<Rightarrow> env" where
  "sample_env tbl = \<lparr>connection = Inr (table_conn tbl), general_format = fixed2\<rparr>"

definition scalar :: "cell \<Rightarrow> dataframe" where
  "scalar c = \<lparr>df_columns = [''value''], df_rows = [[c]]\<rparr>"

definition no_rows :: "string list \<Rightarrow> dataframe" where
  "no_rows cols = \<lparr>df_columns = cols, df_rows = []\<rparr>"

text \<open>
  The figures of a shop with 100 customers, 50 orders in 120 order rows, and payments of
  5000.00.
\<close>

definition metric_rows :: "(string \<times> dataframe) list" where
  "metric_rows =
     [(sql_total_customers, scalar (VInt 100)),
      (sql_unique_orders, scalar (VInt 50)),
      (sql_order_records, scalar (VInt 120)),
      (sql_total_revenue, scalar (VNum 5000)),
      (sql_active_customers, scalar (VInt 40)),
      (sql_avg_order_value, scalar (VNum 100)),
      (sql_orders_per_customer, scalar (VNum (5 / 4))),
      (sql_total_products, scalar (VInt 7)),
      (sql_duplicate_factor, scalar (VNum (12 / 5)))]"

definition chart_rows :: "(string \<times> dataframe) list" where
  "chart_rows =
     [(sql_customer_states,
        \<lparr>df_columns = [''State'', ''Customer Count''],
         df_rows = [[VStr ''SP'', VInt 60], [VStr ''RJ'', VInt 40]]\<rparr>),
      (sql_orders_by_status,
        \<lparr>df_columns = [''Status'', ''Count''],
         df_rows = [[VStr ''delivered'', VInt 45], [VStr ''shipped'', VInt 5]]\<rparr>),
      (sql_orders_over_time,
        \<lparr>df_columns = [''Month'', ''Order Count''],
         df_rows = [[VStr ''2018-01'', VInt 20], [VStr ''2018-02'', VInt 30]]\<rparr>),
      (sql_category_revenue,
        \<lparr>df_columns = [''Category'', ''Revenue''],
         df_rows = [[VStr ''toys'', VNum 3000], [VStr ''books'', VNum 2000]]\<rparr>),
      (sql_monthly,
        \<lparr>df_columns = [''Month'', ''Revenue'', ''Order Count''],
         df_rows = [[VStr ''2018-01'', VNum 2000, VInt 20], [VStr ''2018-02'', VNum 3000, VInt 30]]\<rparr>)]"

definition chart_rows_empty :: "(string \<times> dataframe) list" where
  "chart_rows_empty =
     [(sql_customer_states, no_rows [''State'', ''Customer Count'']),
      (sql_orders_by_status, no_rows [''Status'', ''Count'']),
      (sql_orders_over_time, no_rows [''Month'', ''Order Count'']),
      (sql_category_revenue, no_rows [''Category'', ''Revenue'']),
      (sql_monthly, no_rows [''Month'', ''Revenue'', ''Order Count''])]"


text \<open>
  Answers as the cache of the connection can give them within one run: the figures of
  the shop, cached by an earlier run and still within their time-to-live, while every chart
  query is answered anew, after the tables were emptied.
\<close>

definition bare_shop :: env where
  "bare_shop = sample_env (metric_rows @ chart_rows_empty)"

text \<open>
  Likewise, with only the monthly order counts answered from the emptied tables.
\<close>

definition half_shop :: env where
  "half_shop =
     sample_env (metric_rows @ (sql_orders_over_time, no_rows [''Month'', ''Order Count'']) # chart_rows)"

text \<open>
  One state of the database: no row in any table. The counts are 0, \<open>SUM\<close> and \<open>AVG\<close>
  are \<open>NULL\<close>, the two ratio queries divide by zero and raise, and the chart queries
  answer no rows.
\<close>

definition empty_shop :: env where
  "empty_shop = sample_env
     ([(sql_total_customers, scalar (VInt 0)),
       (sql_unique_orders, scalar (VInt 0)),
       (sql_order_records, scalar (VInt 0)),
       (sql_total_revenue, scalar VNone),
       (sql_active_customers, scalar (VInt 0)),
       (sql_avg_order_value, scalar VNone),
       (sql_total_products, scalar (VInt 0))] @ chart_rows_empty)"

text \<open>
  One state of the database: two customers with 2469 orders between them.
\<close>

definition wholesale_shop :: env where
  "wholesale_shop = sample_env
     [(sql_total_customers, scalar (VInt 2)),
      (sql_unique_orders, scalar (VInt 2469)),
      (sql_order_records, scalar (VInt 2469)),
      (sql_total_revenue, scalar (VNum 246900)),
      (sql_active_customers, scalar (VInt 2)),
      (sql_avg_order_value, scalar (VNum 100)),
      (sql_orders_per_customer, scalar (VNum (2469 / 2))),
      (sql_total_products, scalar (VInt 7)),
      (sql_duplicate_factor, scalar (VNum 1)),
      (sql_customer_states,
        \<lparr>df_columns = [''State'', ''Customer Count''], df_rows = [[VStr ''SP'', VInt 2]]\<rparr>),
      (sql_orders_by_status,
        \<lparr>df_columns = [''Status'', ''Count''], df_rows = [[VStr ''delivered'', VInt 2469]]\<rparr>),
      (sql_orders_over_time,
        \<lparr>df_columns = [''Month'', ''Order Count''], df_rows = [[VStr ''2018-01'', VInt 2469]]\<rparr>),
      (sql_category_revenue,
        \<lparr>df_columns = [''Category'', ''Revenue''], df_rows = [[VStr ''toys'', VNum 246900]]\<rparr>),
      (sql_monthly,
        \<lparr>df_columns = [''Month'', ''Revenue'', ''Order Count''],
         df_rows = [[VStr ''2018-01'', VNum 246900, VInt 2469]]\<rparr>)]"



section \<open>Lemmas\<close>

subsection \<open>The script monad\<close>

lemmas io_defs = bind_def ret_def raise_def lift_def emit_def conn_query_def

lemmas sql_defs =
  sql_total_customers_def sql_unique_orders_def sql_order_records_def sql_total_revenue_def
  sql_active_customers_def sql_avg_order_value_def sql_orders_per_customer_def
  sql_total_products_def sql_duplicate_factor_def sql_customer_states_def
  sql_orders_by_status_def sql_orders_over_time_def sql_category_revenue_def sql_monthly_def

lemmas run_defs = run_main_def main_def acquire_def init_def dispatch_def footer_def
  metric_panel_def io_defs

lemmas sample_defs = bare_shop_def sample_env_def table_conn_def metric_rows_def
  chart_rows_empty_def scalar_def no_rows_def iloc00_def df_empty_def

lemmas table_defs = table_conn_def metric_rows_def chart_rows_def chart_rows_empty_def
  scalar_def no_rows_def sql_defs

lemmas fmt_eval = str_nat.simps commas.simps digit_char_def fixed2_def round_half_even_def

lemma bind_ret: "bind m ret = m"
  by (rule ext) (simp add: bind_def ret_def split: prod.splits sum.splits)

lemma bind_ret_unit: "bind m (\<lambda>_. ret ()) = (m :: unit io)"
  by (rule ext) (simp add: bind_def ret_def split: prod.splits sum.splits)

lemma ret_bind: "bind (ret x) f = f x"
  by (rule ext) (simp add: bind_def ret_def)

lemma bind_assoc: "bind (bind m f) g = bind m (\<lambda>x. bind (f x) g)"
  by (rule ext) (simp add: bind_def split: prod.splits sum.splits)

lemma bind_emit: "bind (emit p w) f s = f () (s\<lparr>out := out s @ [(p, w)]\<rparr>)"
  by (simp add: bind_def emit_def)

lemma block_append: "block (xs @ ys) = bind (block xs) (\<lambda>_. block ys)"
proof (induction xs)
  case Nil
  show ?case by (rule ext) (simp add: bind_def ret_def)
next
  case (Cons m ms)
  show ?case by (rule ext) (simp add: Cons bind_def split: prod.splits sum.splits)
qed

lemma run_main_connected:
  "connection e = Inr conn \<Longrightarrow>
   run_main e sel =
     bind (dispatch e conn sel) (\<lambda>_. footer) \<lparr>out = page_head, issued = []\<rparr>"
  by (simp add: run_main_def main_def acquire_def init_def page_head_def bind_ret_unit
      bind_ret bind_assoc ret_bind bind_emit)

lemma dispatch_other:
  "sel \<notin> set analysis_options \<Longrightarrow> dispatch e conn sel = ret ()"
  by (simp add: dispatch_def analysis_options_def)

subsection \<open>The queries a script issues\<close>

lemma consumes_ret: "consumes (ret x) qs qs"
  by (simp add: consumes_def ret_def)

lemma consumes_raise: "consumes (raise e) qs qs"
  by (simp add: consumes_def raise_def)

lemma consumes_lift: "consumes (lift r) qs qs"
  by (cases r) (simp_all add: consumes_def lift_def)

lemma consumes_emit: "consumes (emit p w) qs qs"
  by (simp add: consumes_def emit_def)

lemma consumes_query: "consumes (conn_query c q t) ((q, t) # qs) qs"
  by (cases "c q t") (simp_all add: consumes_def conn_query_def)

lemma consumes_bind:
  assumes m: "consumes m qs qs1" and f: "\<And>x. consumes (f x) qs1 qs2"
  shows "consumes (bind m f) qs qs2"
  unfolding consumes_def
proof
  fix s
  obtain r s1 where ms: "m s = (r, s1)" by (cases "m s")
  from m obtain l1 where l1: "issued s1 = issued s @ l1"
    and c1: "case r of Inr _ \<Rightarrow> qs = l1 @ qs1 | Inl _ \<Rightarrow> prefix l1 qs"
    unfolding consumes_def using ms by (metis fst_conv snd_conv)
  show "\<exists>l. issued (snd (bind m f s)) = issued s @ l \<and>
        (case fst (bind m f s) of Inr _ \<Rightarrow> qs = l @ qs2 | Inl _ \<Rightarrow> prefix l qs)"
  proof (cases r)
    case (Inl e)
    with ms l1 c1 show ?thesis by (auto simp: bind_def)
  next
    case (Inr x)
    with c1 have qs: "qs = l1 @ qs1" by simp
    from f [of x] obtain l2 where l2: "issued (snd (f x s1)) = issued s1 @ l2"
      and c2: "case fst (f x s1) of Inr _ \<Rightarrow> qs1 = l2 @ qs2 | Inl _ \<Rightarrow> prefix l2 qs1"
      unfolding consumes_def by blast
    have b: "bind m f s = f x s1" using ms Inr by (simp add: bind_def)
    show ?thesis
    proof (intro exI [of _ "l1 @ l2"] conjI)
      show "issued (snd (bind m f s)) = issued s @ l1 @ l2" using b l1 l2 by simp
      show "case fst (bind m f s) of Inr _ \<Rightarrow> qs = (l1 @ l2) @ qs2 | Inl _ \<Rightarrow> prefix (l1 @ l2) qs"
        using c2 qs b by (cases "fst (f x s1)") simp_all
    qed
  qed
qed

lemma consumes_if:
  "consumes a qs qs' \<Longrightarrow> consumes b qs qs' \<Longrightarrow> consumes (if c then a else b) qs qs'"
  by simp

lemma consumes_nil: "consumes (block []) qs qs"
  by (simp add: consumes_ret)

lemma consumes_cons:
  "consumes m qs qs1 \<Longrightarrow> consumes (block ms) qs1 qs2 \<Longrightarrow> consumes (block (m # ms)) qs qs2"
  by (simp add: consumes_bind)

lemma consumes_metric:
  "consumes (metric_panel e c p q t label pre spec suf) ((q, t) # qs) qs"
  unfolding metric_panel_def
  by (rule consumes_bind consumes_query consumes_lift consumes_emit)+

lemmas consumes_intros =
  consumes_cons consumes_nil consumes_bind consumes_if consumes_metric consumes_query
  consumes_lift consumes_emit consumes_ret consumes_raise

lemma consumes_overview:
  "consumes (overview e c)
     ((sql_total_customers, 600) # (sql_unique_orders, 600) # (sql_order_records, 600) #
      (sql_total_revenue, 600) # (sql_active_customers, 600) # (sql_avg_order_value, 600) # qs) qs"
  unfolding overview_def by (rule consumes_intros)+

lemma consumes_customer_analysis:
  "consumes (customer_analysis c) ((sql_customer_states, 600) # qs) qs"
  unfolding customer_analysis_def by (rule consumes_intros)+

lemma consumes_order_analysis:
  "consumes (order_analysis e c)
     ((sql_unique_orders, 600) # (sql_orders_per_customer, 600) # (sql_avg_order_value, 600) #
      (sql_total_products, 600) # (sql_order_records, 600) # (sql_duplicate_factor, 600) #
      (sql_orders_by_status, 600) # (sql_orders_over_time, 600) # qs) qs"
  unfolding order_analysis_def by (rule consumes_intros)+

lemma consumes_sales_revenue:
  "consumes (sales_revenue c) ((sql_category_revenue, 600) # qs) qs"
  unfolding sales_revenue_def by (rule consumes_intros)+

lemma consumes_time_series:
  "consumes (time_series c) ((sql_monthly, 600) # qs) qs"
  unfolding time_series_def by (rule consumes_intros)+

lemma consumes_acquire: "consumes (acquire e) qs qs"
  unfolding acquire_def by (cases "connection e"; simp) ((rule consumes_intros)+)

lemma consumes_footer: "consumes footer qs qs"
  unfolding footer_def by (rule consumes_intros)+

lemma consumes_dispatch: "consumes (dispatch e c sel) (plan sel @ qs) qs"
  unfolding dispatch_def plan_def report_queries_def
  by (simp add: consumes_overview consumes_customer_analysis consumes_order_analysis
      consumes_sales_revenue consumes_time_series consumes_ret)

lemma consumes_main: "consumes (main e sel) (plan sel) []"
proof -
  have "consumes (main e sel) (plan sel @ []) []"
    unfolding main_def
    by (rule consumes_intros consumes_acquire consumes_dispatch consumes_footer)+
  then show ?thesis by simp
qed

lemma issued_run_main:
  "\<exists>l. issued (snd (run_main e sel)) = l \<and>
     (case fst (run_main e sel) of Inr _ \<Rightarrow> plan sel = l | Inl _ \<Rightarrow> prefix l (plan sel))"
  using consumes_main [of e sel] unfolding consumes_def run_main_def
  by (metis append_Nil append_Nil2 init_def state.select_convs(2))

lemma issued_prefix_plan: "prefix (issued (snd (run_main e sel))) (plan sel)"
  using issued_run_main [of e sel] by (cases "fst (run_main e sel)") auto


subsection \<open>The page only grows\<close>

lemma grows_ret: "grows (ret x)"
  by (simp add: grows_def ret_def)

lemma grows_raise: "grows (raise e)"
  by (simp add: grows_def raise_def)

lemma grows_lift: "grows (lift r)"
  by (simp add: grows_def lift_def)

lemma grows_emit: "grows (emit p w)"
  by (simp add: grows_def emit_def)

lemma grows_query: "grows (conn_query c q t)"
  by (simp add: grows_def conn_query_def)

lemma grows_bind:
  assumes "grows m" and "\<And>x. grows (f x)"
  shows "grows (bind m f)"
  unfolding grows_def
proof
  fix s
  obtain r s1 where ms: "m s = (r, s1)" by (cases "m s")
  have p1: "prefix (out s) (out s1)" using assms(1) ms unfolding grows_def by (metis snd_conv)
  show "prefix (out s) (out (snd (bind m f s)))"
  proof (cases r)
    case (Inl e)
    with ms p1 show ?thesis by (simp add: bind_def)
  next
    case (Inr x)
    have "prefix (out s1) (out (snd (f x s1)))" using assms(2) unfolding grows_def by blast
    with p1 ms Inr show ?thesis by (auto simp: bind_def intro: prefix_order.trans)
  qed
qed

lemma grows_if: "grows a \<Longrightarrow> grows b \<Longrightarrow> grows (if c then a else b)"
  by simp

lemma grows_nil: "grows (block [])"
  by (simp add: grows_ret)

lemma grows_cons: "grows m \<Longrightarrow> grows (block ms) \<Longrightarrow> grows (block (m # ms))"
  by (simp add: grows_bind)

lemma grows_metric: "grows (metric_panel e c p q t label pre spec suf)"
  unfolding metric_panel_def by (rule grows_bind grows_query grows_lift grows_emit)+

lemmas grows_intros = grows_cons grows_nil grows_bind grows_if grows_metric grows_query
  grows_lift grows_emit grows_ret grows_raise

lemma grows_footer: "grows footer"
  unfolding footer_def by (rule grows_intros)+

lemma grows_out: "grows m \<Longrightarrow> x \<in> set (out s) \<Longrightarrow> x \<in> set (out (snd (m s)))"
  unfolding grows_def by (meson set_mono_prefix subsetD)

subsection \<open>What stays true of the page\<close>

lemma keeps_ret: "keeps P (ret x)"
  by (simp add: keeps_def ret_def)

lemma keeps_raise: "keeps P (raise e)"
  by (simp add: keeps_def raise_def)

lemma keeps_lift: "keeps P (lift r)"
  by (simp add: keeps_def lift_def)

lemma keeps_emit: "P w \<Longrightarrow> keeps P (emit p w)"
  by (simp add: keeps_def emit_def)

lemma keeps_query: "keeps P (conn_query c q t)"
  by (simp add: keeps_def conn_query_def)

lemma keeps_bind:
  assumes "keeps P m" and "\<And>x. keeps P (f x)"
  shows "keeps P (bind m f)"
  unfolding keeps_def
proof (intro allI impI)
  fix s :: state
  assume a: "\<forall>x \<in> set (out s). P (snd x)"
  obtain r s1 where ms: "m s = (r, s1)" by (cases "m s")
  have p1: "\<forall>x \<in> set (out s1). P (snd x)"
    using assms(1) a ms unfolding keeps_def by (metis snd_conv)
  show "\<forall>x \<in> set (out (snd (bind m f s))). P (snd x)"
  proof (cases r)
    case (Inl e)
    with ms p1 show ?thesis by (simp add: bind_def)
  next
    case (Inr x)
    have "\<forall>y \<in> set (out (snd (f x s1))). P (snd y)"
      using assms(2) [of x] p1 unfolding keeps_def by blast
    with ms Inr show ?thesis by (simp add: bind_def)
  qed
qed

lemma keeps_lift_bind:
  assumes "\<And>x. r = Inr x \<Longrightarrow> keeps P (f x)"
  shows "keeps P (bind (lift r) f)"
proof (cases r)
  case (Inl e)
  then show ?thesis by (simp add: keeps_def bind_def lift_def)
next
  case (Inr x)
  have "bind (lift r) f = f x" by (rule ext) (simp add: Inr bind_def lift_def)
  with assms [OF Inr] show ?thesis by simp
qed

lemma keeps_if:
  "(c \<Longrightarrow> keeps P a) \<Longrightarrow> (\<not> c \<Longrightarrow> keeps P b) \<Longrightarrow> keeps P (if c then a else b)"
  by simp

lemma keeps_nil: "keeps P (block [])"
  by (simp add: keeps_ret)

lemma keeps_cons: "keeps P m \<Longrightarrow> keeps P (block ms) \<Longrightarrow> keeps P (block (m # ms))"
  by (simp add: keeps_bind)

lemma keeps_metric:
  assumes "\<And>c txt. py_format (general_format e) spec c = Inr txt \<Longrightarrow> P (Metric label (pre @ txt @ suf))"
  shows "keeps P (metric_panel e conn p q t label pre spec suf)"
  unfolding metric_panel_def
  by (intro keeps_bind keeps_query keeps_lift_bind keeps_emit assms)

lemmas keeps_intros = keeps_cons keeps_nil keeps_lift_bind keeps_bind keeps_if keeps_metric
  keeps_query keeps_emit keeps_ret keeps_raise

lemma px_data: "px k df x y title = Inr fig \<Longrightarrow> fig_data fig = df"
  by (auto simp: px_def split: if_splits)

lemma keeps_footer: "(\<And>t. P (Markdown t)) \<Longrightarrow> (\<And>n. P (Columns n)) \<Longrightarrow> keeps P footer"
  unfolding footer_def by (intro keeps_intros) simp_all

lemma keeps_acquire:
  "(\<And>t. P (Success t)) \<Longrightarrow> (\<And>t i. P (ErrorBox t i)) \<Longrightarrow> keeps P (acquire e)"
  unfolding acquire_def by (cases "connection e"; simp) (intro keeps_intros; simp)+

lemma shows_data_overview: "keeps shows_data (overview e c)"
  unfolding overview_def by (intro keeps_intros) simp_all

lemma shows_data_customer_analysis: "keeps shows_data (customer_analysis c)"
  unfolding customer_analysis_def by (intro keeps_intros) (simp_all add: px_data)

lemma shows_data_order_analysis: "keeps shows_data (order_analysis e c)"
  unfolding order_analysis_def by (intro keeps_intros) (simp_all add: px_data update_xaxes_def)

lemma shows_data_sales_revenue: "keeps shows_data (sales_revenue c)"
  unfolding sales_revenue_def by (intro keeps_intros) (simp_all add: px_data update_xaxes_def)

lemma shows_data_time_series: "keeps shows_data (time_series c)"
  unfolding time_series_def by (intro keeps_intros) (simp_all add: px_data)

lemma shows_data_dispatch: "keeps shows_data (dispatch e c sel)"
  unfolding dispatch_def
  by (simp add: shows_data_overview shows_data_customer_analysis shows_data_order_analysis
      shows_data_sales_revenue shows_data_time_series keeps_ret)

lemma shows_data_main: "keeps shows_data (main e sel)"
  unfolding main_def
  by (intro keeps_intros keeps_acquire keeps_footer shows_data_dispatch) simp_all

lemma shows_data_run:
  "\<forall>x \<in> set (out (snd (run_main e sel))). shows_data (snd x)"
proof -
  have "\<forall>x \<in> set (out init). shows_data (snd x)" by (simp add: init_def)
  then show ?thesis
    using shows_data_main [of e sel] unfolding keeps_def run_main_def by blast
qed

lemma footer_run: "footer s = (Inr (), s\<lparr>out := out s @ page_foot\<rparr>)"
  by (simp add: page_foot_def footer_def init_def io_defs)

lemma customer_analysis_empty:
  "conn sql_customer_states 600 = Inr df \<Longrightarrow> df_empty df \<Longrightarrow>
   customer_analysis conn s =
     (Inr (), s\<lparr>out := out s @ [(Page, Header ''Customer Analysis'')],
                issued := issued s @ [(sql_customer_states, 600)]\<rparr>)"
  by (simp add: customer_analysis_def io_defs)

lemma metric_panel_ready:
  assumes "metric_ready (general_format e) spec (conn q t)"
  shows "\<exists>txt. \<forall>s p label pre suf.
           metric_panel e conn p q t label pre spec suf s =
             (Inr (), s\<lparr>issued := issued s @ [(q, t)],
                        out := out s @ [(p, Metric label (pre @ txt @ suf))]\<rparr>)"
proof -
  from assms obtain df c tx where "conn q t = Inr df" "iloc00 df = Inr c"
      "py_format (general_format e) spec c = Inr tx"
    by (auto simp: metric_ready_def split: sum.splits)
  then have "\<forall>s p label pre suf.
           metric_panel e conn p q t label pre spec suf s =
             (Inr (), s\<lparr>issued := issued s @ [(q, t)],
                        out := out s @ [(p, Metric label (pre @ tx @ suf))]\<rparr>)"
    by (simp add: metric_panel_def io_defs del: py_format.simps)
  then show ?thesis by blast
qed

lemma sales_revenue_empty:
  "conn sql_category_revenue 600 = Inr df \<Longrightarrow> df_empty df \<Longrightarrow>
   sales_revenue conn s =
     (Inr (), s\<lparr>out := out s @ [(Page, Header ''Sales & Revenue Analysis'')],
                issued := issued s @ [(sql_category_revenue, 600)]\<rparr>)"
  by (simp add: sales_revenue_def io_defs)

lemma time_series_empty:
  "conn sql_monthly 600 = Inr df \<Longrightarrow> df_empty df \<Longrightarrow>
   time_series conn s =
     (Inr (), s\<lparr>out := out s @ [(Page, Header ''Time Series Analysis'')],
                issued := issued s @ [(sql_monthly, 600)]\<rparr>)"
  by (simp add: time_series_def io_defs)

lemma page_head_no_chart: "\<forall>x \<in> set page_head. \<not> is_chart (snd x)"
  by (simp add: page_head_def)

lemma page_foot_no_chart: "\<forall>x \<in> set page_foot. \<not> is_chart (snd x)"
  by (simp add: page_foot_def footer_def init_def io_defs)

lemma run_customer_empty:
  assumes "connection e = Inr conn" and "conn sql_customer_states 600 = Inr df" and "df_empty df"
  shows "run_main e '' Customer Analysis'' =
     (Inr (),
      \<lparr>out = page_head @ [(Page, Header ''Customer Analysis'')] @ page_foot,
       issued = [(sql_customer_states, 600)]\<rparr>)"
proof -
  note step = customer_analysis_empty [of conn df, OF assms(2) assms(3)]
  have "dispatch e conn '' Customer Analysis'' = customer_analysis conn"
    by (simp add: dispatch_def)
  then show ?thesis
    by (simp add: run_main_connected [OF assms(1)] bind_def step footer_run)
qed

lemma run_sales_empty:
  assumes "connection e = Inr conn" and "conn sql_category_revenue 600 = Inr df" and "df_empty df"
  shows "run_main e '' Sales & Revenue'' =
     (Inr (),
      \<lparr>out = page_head @ [(Page, Header ''Sales & Revenue Analysis'')] @ page_foot,
       issued = [(sql_category_revenue, 600)]\<rparr>)"
proof -
  note step = sales_revenue_empty [of conn df, OF assms(2) assms(3)]
  have "dispatch e conn '' Sales & Revenue'' = sales_revenue conn"
    by (simp add: dispatch_def)
  then show ?thesis
    by (simp add: run_main_connected [OF assms(1)] bind_def step footer_run)
qed

lemma run_time_series_empty:
  assumes "connection e = Inr conn" and "conn sql_monthly 600 = Inr df" and "df_empty df"
  shows "run_main e '' Time Series Analysis'' =
     (Inr (),
      \<lparr>out = page_head @ [(Page, Header ''Time Series Analysis'')] @ page_foot,
       issued = [(sql_monthly, 600)]\<rparr>)"
proof -
  note step = time_series_empty [of conn df, OF assms(2) assms(3)]
  have "dispatch e conn '' Time Series Analysis'' = time_series conn"
    by (simp add: dispatch_def)
  then show ?thesis
    by (simp add: run_main_connected [OF assms(1)] bind_def step footer_run)
qed

lemma time_panel_issued:
  "issued (snd (bind (conn_query conn sql_orders_over_time 600) (\<lambda>df.
          if \<not> df_empty df then
            bind (lift (px Line df ''Month'' ''Order Count'' ''Unique Orders Over Time'')) (\<lambda>fig.
            emit Page (PlotlyChart fig))
          else ret ()) s)) = issued s @ [(sql_orders_over_time, 600)]"
  by (simp add: io_defs split: sum.splits)

lemma time_panel_out:
  "prefix (out s) (out (snd (bind (conn_query conn sql_orders_over_time 600) (\<lambda>df.
          if \<not> df_empty df then
            bind (lift (px Line df ''Month'' ''Order Count'' ''Unique Orders Over Time'')) (\<lambda>fig.
            emit Page (PlotlyChart fig))
          else ret ()) s)))"
  by (simp add: io_defs split: sum.splits)

subsection \<open>Runs that complete\<close>

















lemma order_analysis_to_time_panel:
  assumes ready: "order_metrics_ready e conn"
    and st: "conn sql_orders_by_status 600 = Inr d4"
      "df_empty d4 \<or> set [''Status'', ''Count''] \<subseteq> set (df_columns d4)"
  shows "\<exists>ms. filter is_chart (map snd ms) = status_charts d4 \<and>
     (\<forall>s. order_analysis e conn s =
        bind (conn_query conn sql_orders_over_time 600) (\<lambda>df.
          if \<not> df_empty df then
            bind (lift (px Line df ''Month'' ''Order Count'' ''Unique Orders Over Time'')) (\<lambda>fig.
            emit Page (PlotlyChart fig))
          else ret ())
        (s\<lparr>issued := issued s @
              [(sql_unique_orders, 600), (sql_orders_per_customer, 600), (sql_avg_order_value, 600),
               (sql_total_products, 600), (sql_order_records, 600), (sql_duplicate_factor, 600),
               (sql_orders_by_status, 600)],
            out := out s @ ms @ [(Page, Subheader time_heading)]\<rparr>))"
proof -
  from ready obtain t1 where m1: "\<And>s p label pre suf.
      metric_panel e conn p sql_unique_orders 600 label pre Comma suf s =
        (Inr (), s\<lparr>issued := issued s @ [(sql_unique_orders, 600)],
                   out := out s @ [(p, Metric label (pre @ t1 @ suf))]\<rparr>)"
    using metric_panel_ready [of e Comma conn sql_unique_orders 600]
    unfolding order_metrics_ready_def by blast
  from ready obtain t2 where m2: "\<And>s p label pre suf.
      metric_panel e conn p sql_orders_per_customer 600 label pre Fixed2 suf s =
        (Inr (), s\<lparr>issued := issued s @ [(sql_orders_per_customer, 600)],
                   out := out s @ [(p, Metric label (pre @ t2 @ suf))]\<rparr>)"
    using metric_panel_ready [of e Fixed2 conn sql_orders_per_customer 600]
    unfolding order_metrics_ready_def by blast
  from ready obtain t3 where m3: "\<And>s p label pre suf.
      metric_panel e conn p sql_avg_order_value 600 label pre CommaFixed2 suf s =
        (Inr (), s\<lparr>issued := issued s @ [(sql_avg_order_value, 600)],
                   out := out s @ [(p, Metric label (pre @ t3 @ suf))]\<rparr>)"
    using metric_panel_ready [of e CommaFixed2 conn sql_avg_order_value 600]
    unfolding order_metrics_ready_def by blast
  from ready obtain t4 where m4: "\<And>s p label pre suf.
      metric_panel e conn p sql_total_products 600 label pre Comma suf s =
        (Inr (), s\<lparr>issued := issued s @ [(sql_total_products, 600)],
                   out := out s @ [(p, Metric label (pre @ t4 @ suf))]\<rparr>)"
    using metric_panel_ready [of e Comma conn sql_total_products 600]
    unfolding order_metrics_ready_def by blast
  from ready obtain t5 where m5: "\<And>s p label pre suf.
      metric_panel e conn p sql_order_records 600 label pre Comma suf s =
        (Inr (), s\<lparr>issued := issued s @ [(sql_order_records, 600)],
                   out := out s @ [(p, Metric label (pre @ t5 @ suf))]\<rparr>)"
    using metric_panel_ready [of e Comma conn sql_order_records 600]
    unfolding order_metrics_ready_def by blast
  from ready obtain t6 where m6: "\<And>s p label pre suf.
      metric_panel e conn p sql_duplicate_factor 600 label pre Plain suf s =
        (Inr (), s\<lparr>issued := issued s @ [(sql_duplicate_factor, 600)],
                   out := out s @ [(p, Metric label (pre @ t6 @ suf))]\<rparr>)"
    using metric_panel_ready [of e Plain conn sql_duplicate_factor 600]
    unfolding order_metrics_ready_def by blast
  define base where "base =
    [(Page, Header ''Order Analysis''), (Page, Subheader ''Order Statistics''), (Page, Columns 4),
     (Column 1, Metric ''Unique Orders'' t1),
     (Column 2, Metric ''Orders per Customer'' t2),
     (Column 3, Metric ''Avg Order Value'' (''$'' @ t3)),
     (Column 4, Metric ''Total Products'' t4),
     (Page, Subheader '' Data Quality''), (Page, Columns 2),
     (Column 1, Metric ''Order Records'' t5),
     (Column 2, Metric ''Duplicate Factor'' (t6 @ ''x'')),
     (Page, Info duplicate_note), (Page, Subheader '' Orders by Status'')]"
  define ms where "ms = base @ map (Pair Page) (status_charts d4)"
  have charts: "filter is_chart (map snd ms) = status_charts d4"
    by (simp add: ms_def base_def status_charts_def status_chart_def comp_def)
  define tp where "tp =
        bind (conn_query conn sql_orders_over_time 600) (\<lambda>df.
          if \<not> df_empty df then
            bind (lift (px Line df ''Month'' ''Order Count'' ''Unique Orders Over Time'')) (\<lambda>fig.
            emit Page (PlotlyChart fig))
          else ret ())"
  define pre where "pre =
    [emit Page (Header ''Order Analysis''),
     emit Page (Subheader ''Order Statistics''),
     emit Page (Columns 4),
     metric_panel e conn (Column 1) sql_unique_orders 600 ''Unique Orders'' [] Comma [],
     metric_panel e conn (Column 2) sql_orders_per_customer 600 ''Orders per Customer'' [] Fixed2 [],
     metric_panel e conn (Column 3) sql_avg_order_value 600 ''Avg Order Value'' ''$'' CommaFixed2 [],
     metric_panel e conn (Column 4) sql_total_products 600 ''Total Products'' [] Comma [],
     emit Page (Subheader '' Data Quality''),
     emit Page (Columns 2),
     metric_panel e conn (Column 1) sql_order_records 600 ''Order Records'' [] Comma [],
     metric_panel e conn (Column 2) sql_duplicate_factor 600 ''Duplicate Factor'' [] Plain ''x'',
     emit Page (Info duplicate_note),
     emit Page (Subheader '' Orders by Status'')]"
  define sp where "sp =
     bind (conn_query conn sql_orders_by_status 600) (\<lambda>df.
       if \<not> df_empty df then
         bind (lift (px Bar df ''Status'' ''Count'' ''Unique Orders by Status'')) (\<lambda>fig.
         emit Page (PlotlyChart (update_xaxes 45 fig)))
       else ret ())"
  have oa: "order_analysis e conn =
      bind (block pre) (\<lambda>_. bind sp (\<lambda>_. bind (emit Page (Subheader time_heading)) (\<lambda>_. tp)))"
  proof -
    have "order_analysis e conn = block (pre @ [sp, emit Page (Subheader time_heading), tp])"
      by (simp add: order_analysis_def pre_def sp_def tp_def time_heading_def)
    then show ?thesis by (simp only: block_append block.simps bind_ret_unit)
  qed
  have pre_run: "\<And>s. block pre s =
      (Inr (), s\<lparr>issued := issued s @
              [(sql_unique_orders, 600), (sql_orders_per_customer, 600), (sql_avg_order_value, 600),
               (sql_total_products, 600), (sql_order_records, 600), (sql_duplicate_factor, 600)],
                 out := out s @ base\<rparr>)"
    unfolding pre_def base_def
    by (simp add: bind_def ret_def emit_def m1 m2 m3 m4 m5 m6)
  have sp_run: "\<And>s. sp s =
      (Inr (), s\<lparr>issued := issued s @ [(sql_orders_by_status, 600)],
                 out := out s @ map (Pair Page) (status_charts d4)\<rparr>)"
    unfolding sp_def using st
    by (cases "df_empty d4")
       (simp_all add: io_defs px_def update_xaxes_def status_charts_def status_chart_def)
  have "\<And>s. order_analysis e conn s =
        tp (s\<lparr>issued := issued s @
              [(sql_unique_orders, 600), (sql_orders_per_customer, 600), (sql_avg_order_value, 600),
               (sql_total_products, 600), (sql_order_records, 600), (sql_duplicate_factor, 600),
               (sql_orders_by_status, 600)],
            out := out s @ ms @ [(Page, Subheader time_heading)]\<rparr>)"
    by (simp add: oa bind_def pre_run sp_run emit_def ms_def)
  then show ?thesis using charts unfolding tp_def by blast
qed

lemma time_panel_run:
  "conn sql_orders_over_time 600 = Inr d5 \<Longrightarrow>
   df_empty d5 \<or> set [''Month'', ''Order Count''] \<subseteq> set (df_columns d5) \<Longrightarrow>
   bind (conn_query conn sql_orders_over_time 600) (\<lambda>df.
          if \<not> df_empty df then
            bind (lift (px Line df ''Month'' ''Order Count'' ''Unique Orders Over Time'')) (\<lambda>fig.
            emit Page (PlotlyChart fig))
          else ret ()) s =
     (Inr (), s\<lparr>issued := issued s @ [(sql_orders_over_time, 600)],
                out := out s @ map (Pair Page) (time_charts d5)\<rparr>)"
  by (cases "df_empty d5") (simp_all add: io_defs px_def time_charts_def time_chart_def)

lemma no_chart_filter: "\<forall>x \<in> set xs. \<not> is_chart (snd x) \<Longrightarrow> filter is_chart (map snd xs) = []"
  by (induction xs) auto

lemma run_order_analysis:
  assumes c: "connection e = Inr conn" and ready: "order_metrics_ready e conn"
    and st: "conn sql_orders_by_status 600 = Inr d4"
      "df_empty d4 \<or> set [''Status'', ''Count''] \<subseteq> set (df_columns d4)"
  shows "(Page, Subheader time_heading) \<in> set (out (snd (run_main e '' Order Analysis'')))"
    and "(sql_orders_over_time, 600) \<in> set (issued (snd (run_main e '' Order Analysis'')))"
    and "conn sql_orders_over_time 600 = Inr d5 \<Longrightarrow>
         df_empty d5 \<or> set [''Month'', ''Order Count''] \<subseteq> set (df_columns d5) \<Longrightarrow>
         fst (run_main e '' Order Analysis'') = Inr () \<and>
         filter is_chart (map snd (out (snd (run_main e '' Order Analysis'')))) =
           status_charts d4 @ time_charts d5"
proof -
  define tp where "tp =
        bind (conn_query conn sql_orders_over_time 600) (\<lambda>df.
          if \<not> df_empty df then
            bind (lift (px Line df ''Month'' ''Order Count'' ''Unique Orders Over Time'')) (\<lambda>fig.
            emit Page (PlotlyChart fig))
          else ret ())"
  from order_analysis_to_time_panel [OF ready st] obtain ms where
    ms: "filter is_chart (map snd ms) = status_charts d4" and
    oa: "\<And>s. order_analysis e conn s =
        tp (s\<lparr>issued := issued s @
              [(sql_unique_orders, 600), (sql_orders_per_customer, 600), (sql_avg_order_value, 600),
               (sql_total_products, 600), (sql_order_records, 600), (sql_duplicate_factor, 600),
               (sql_orders_by_status, 600)],
            out := out s @ ms @ [(Page, Subheader time_heading)]\<rparr>)"
    unfolding tp_def by blast
  define s1 where "s1 = \<lparr>out = page_head @ ms @ [(Page, Subheader time_heading)],
      issued = [(sql_unique_orders, 600), (sql_orders_per_customer, 600), (sql_avg_order_value, 600),
               (sql_total_products, 600), (sql_order_records, 600), (sql_duplicate_factor, 600),
               (sql_orders_by_status, 600)]\<rparr>"
  have d: "dispatch e conn '' Order Analysis'' = order_analysis e conn"
    by (simp add: dispatch_def)
  have run: "run_main e '' Order Analysis'' =
      (case tp s1 of (Inl x, s') \<Rightarrow> (Inl x, s') | (Inr x, s') \<Rightarrow> footer s')"
    by (simp add: run_main_connected [OF c] d bind_def oa s1_def)
  obtain r s2 where t: "tp s1 = (r, s2)" by (cases "tp s1")
  have i2: "issued s2 = issued s1 @ [(sql_orders_over_time, 600)]"
    using time_panel_issued [of conn s1] t unfolding tp_def by simp
  have o2: "prefix (out s1) (out s2)"
    using time_panel_out [of s1 conn] t unfolding tp_def by simp
  have sub1: "(Page, Subheader time_heading) \<in> set (out s1)" by (simp add: s1_def)
  then have sub2: "(Page, Subheader time_heading) \<in> set (out s2)"
    using o2 by (meson set_mono_prefix subsetD)
  show "(Page, Subheader time_heading) \<in> set (out (snd (run_main e '' Order Analysis'')))"
    using sub2 by (cases r) (simp_all add: run t footer_run)
  show "(sql_orders_over_time, 600) \<in> set (issued (snd (run_main e '' Order Analysis'')))"
    using i2 by (cases r) (simp_all add: run t footer_run)
  assume "conn sql_orders_over_time 600 = Inr d5"
    "df_empty d5 \<or> set [''Month'', ''Order Count''] \<subseteq> set (df_columns d5)"
  then have "tp s1 = (Inr (), s1\<lparr>issued := issued s1 @ [(sql_orders_over_time, 600)],
                out := out s1 @ map (Pair Page) (time_charts d5)\<rparr>)"
    unfolding tp_def by (rule time_panel_run)
  then show "fst (run_main e '' Order Analysis'') = Inr () \<and>
         filter is_chart (map snd (out (snd (run_main e '' Order Analysis'')))) =
           status_charts d4 @ time_charts d5"
    using ms no_chart_filter [OF page_head_no_chart] no_chart_filter [OF page_foot_no_chart]
    by (simp add: run footer_run s1_def comp_def time_charts_def time_chart_def)
qed

subsection \<open>Runs of the sample environments\<close>

lemma bare_overview_completes: "fst (run_main bare_shop '' Overview'') = Inr ()"
  by (simp add: run_defs overview_def sample_defs sql_defs)

lemma bare_overview_issued:
  "issued (snd (run_main bare_shop '' Overview'')) = plan '' Overview''"
  by (simp add: run_defs overview_def sample_defs sql_defs plan_def report_queries_def)

lemma fmt_100: "py_format g Comma (VInt 100) = Inr ''100''"
  by (simp add: fmt_eval)

lemma fmt_50: "py_format g Comma (VInt 50) = Inr ''50''"
  by (simp add: fmt_eval)

lemma fmt_120: "py_format g Comma (VInt 120) = Inr ''120''"
  by (simp add: fmt_eval)

lemma fmt_5000: "py_format g CommaFixed2 (VNum 5000) = Inr ''5,000.00''"
  by (simp add: fmt_eval)







section \<open>The claims\<close>




text \<open>
  C2. When ``Overview'' is selected and the four queries answer 100 customers, 50 distinct
  orders, 120 order rows and payments of 5000.00, the page shows the metrics
  ``Total Customers'' 100, ``Unique Orders'' 50, ``Order Records'' 120 and ``Total Revenue''
  \$5,000.00.
\<close>

theorem overview_scenario:
  assumes "connection e = Inr conn"
    and "conn sql_total_customers 600 = Inr d1" and "iloc00 d1 = Inr (VInt 100)"
    and "conn sql_unique_orders 600 = Inr d2" and "iloc00 d2 = Inr (VInt 50)"
    and "conn sql_order_records 600 = Inr d3" and "iloc00 d3 = Inr (VInt 120)"
    and "conn sql_total_revenue 600 = Inr d4" and "iloc00 d4 = Inr (VNum 5000)"
  shows "(Column 1, Metric ''Total Customers'' ''100'') \<in> set (out (snd (run_main e '' Overview''))) \<and>
         (Column 2, Metric ''Unique Orders'' ''50'') \<in> set (out (snd (run_main e '' Overview''))) \<and>
         (Column 3, Metric ''Order Records'' ''120'') \<in> set (out (snd (run_main e '' Overview''))) \<and>
         (Column 4, Metric ''Total Revenue'' ''$5,000.00'') \<in> set (out (snd (run_main e '' Overview'')))"
proof -
  define first where "first =
    [emit Page (Header ''Dashboard Overview''),
     emit Page (Columns 4),
     metric_panel e conn (Column 1) sql_total_customers 600 ''Total Customers'' '''' Comma '''',
     metric_panel e conn (Column 2) sql_unique_orders 600 ''Unique Orders'' '''' Comma '''',
     metric_panel e conn (Column 3) sql_order_records 600 ''Order Records'' '''' Comma '''',
     metric_panel e conn (Column 4) sql_total_revenue 600 ''Total Revenue'' ''$'' CommaFixed2 '''']"
  define rest where "rest =
    [emit Page (Markdown ''---''),
     emit Page (Info data_note),
     emit Page (Columns 2),
     metric_panel e conn (Column 1) sql_active_customers 600 ''Active Customers'' '''' Comma '''',
     metric_panel e conn (Column 2) sql_avg_order_value 600 ''Avg Order Value'' ''$'' CommaFixed2 '''',
     emit Page (Markdown ''###  About This Dashboard''),
     emit Page (Markdown ''This dashboard analyzes e-commerce data including:''),
     emit Page (Markdown (bullet @ '' *Customer Demographics*: Cities, states, and customer distribution'')),
     emit Page (Markdown (bullet @ '' *Order Patterns*: Monthly trends, seasonal analysis'')),
     emit Page (Markdown (bullet @ '' *Sales Performance*: Category-wise sales, revenue analysis'')),
     emit Page (Markdown (bullet @ '' *Business Metrics*: Growth rates, retention, top performers'')),
     emit Page (Markdown ''Navigate through different sections using the sidebar to explore various aspects of the data.'')]"
  define s0 where "s0 = \<lparr>out = page_head, issued = []\<rparr>"
  define s6 where "s6 = snd (block first s0)"
  have ov: "overview e conn = bind (block first) (\<lambda>_. block rest)"
  proof -
    have "overview e conn = block (first @ rest)"
      by (simp add: overview_def first_def rest_def)
    then show ?thesis by (simp only: block_append)
  qed
  have m1: "\<And>s p label pre suf. metric_panel e conn p sql_total_customers 600 label pre Comma suf s =
      (Inr (), s\<lparr>issued := issued s @ [(sql_total_customers, 600)],
                 out := out s @ [(p, Metric label (pre @ ''100'' @ suf))]\<rparr>)"
    using assms(2) assms(3) by (simp add: metric_panel_def io_defs fmt_100 del: py_format.simps)
  have m2: "\<And>s p label pre suf. metric_panel e conn p sql_unique_orders 600 label pre Comma suf s =
      (Inr (), s\<lparr>issued := issued s @ [(sql_unique_orders, 600)],
                 out := out s @ [(p, Metric label (pre @ ''50'' @ suf))]\<rparr>)"
    using assms(4) assms(5) by (simp add: metric_panel_def io_defs fmt_50 del: py_format.simps)
  have m3: "\<And>s p label pre suf. metric_panel e conn p sql_order_records 600 label pre Comma suf s =
      (Inr (), s\<lparr>issued := issued s @ [(sql_order_records, 600)],
                 out := out s @ [(p, Metric label (pre @ ''120'' @ suf))]\<rparr>)"
    using assms(6) assms(7) by (simp add: metric_panel_def io_defs fmt_120 del: py_format.simps)
  have m4: "\<And>s p label pre suf. metric_panel e conn p sql_total_revenue 600 label pre CommaFixed2 suf s =
      (Inr (), s\<lparr>issued := issued s @ [(sql_total_revenue, 600)],
                 out := out s @ [(p, Metric label (pre @ ''5,000.00'' @ suf))]\<rparr>)"
    using assms(8) assms(9) by (simp add: metric_panel_def io_defs fmt_5000 del: py_format.simps)
  have first: "block first s0 = (Inr (), s6)"
    unfolding s6_def first_def by (simp add: bind_def ret_def emit_def m1 m2 m3 m4)
  have out6: "out s6 = page_head @
      [(Page, Header ''Dashboard Overview''), (Page, Columns 4),
       (Column 1, Metric ''Total Customers'' ''100''),
       (Column 2, Metric ''Unique Orders'' ''50''),
       (Column 3, Metric ''Order Records'' ''120''),
       (Column 4, Metric ''Total Revenue'' ''$5,000.00'')]"
    unfolding s6_def first_def s0_def by (simp add: bind_def ret_def emit_def m1 m2 m3 m4)
  have run: "run_main e '' Overview'' = bind (block rest) (\<lambda>_. footer) s6"
    using first by (simp add: run_main_connected [OF assms(1)] dispatch_def ov bind_def s0_def)
  have g: "grows (bind (block rest) (\<lambda>_. footer))"
    unfolding rest_def by (rule grows_intros grows_footer)+
  show ?thesis
    unfolding run by (intro conjI grows_out [OF g]) (simp_all add: out6)
qed

theorem overview_scenario_witness:
  "(Column 1, Metric ''Total Customers'' ''100'') \<in> set (out (snd (run_main bare_shop '' Overview''))) \<and>
   (Column 2, Metric ''Unique Orders'' ''50'') \<in> set (out (snd (run_main bare_shop '' Overview''))) \<and>
   (Column 3, Metric ''Order Records'' ''120'') \<in> set (out (snd (run_main bare_shop '' Overview''))) \<and>
   (Column 4, Metric ''Total Revenue'' ''$5,000.00'') \<in> set (out (snd (run_main bare_shop '' Overview'')))"
proof (rule overview_scenario)
  show "connection bare_shop = Inr (table_conn (metric_rows @ chart_rows_empty))"
    by (simp add: bare_shop_def sample_env_def)
  show "table_conn (metric_rows @ chart_rows_empty) sql_total_customers 600 = Inr (scalar (VInt 100))"
    by (simp add: table_conn_def metric_rows_def sql_defs)
  show "iloc00 (scalar (VInt 100)) = Inr (VInt 100)"
    by (simp add: iloc00_def scalar_def)
  show "table_conn (metric_rows @ chart_rows_empty) sql_unique_orders 600 = Inr (scalar (VInt 50))"
    by (simp add: table_conn_def metric_rows_def sql_defs)
  show "iloc00 (scalar (VInt 50)) = Inr (VInt 50)"
    by (simp add: iloc00_def scalar_def)
  show "table_conn (metric_rows @ chart_rows_empty) sql_order_records 600 = Inr (scalar (VInt 120))"
    by (simp add: table_conn_def metric_rows_def sql_defs)
  show "iloc00 (scalar (VInt 120)) = Inr (VInt 120)"
    by (simp add: iloc00_def scalar_def)
  show "table_conn (metric_rows @ chart_rows_empty) sql_total_revenue 600 = Inr (scalar (VNum 5000))"
    by (simp add: table_conn_def metric_rows_def sql_defs)
  show "iloc00 (scalar (VNum 5000)) = Inr (VNum 5000)"
    by (simp add: iloc00_def scalar_def)
qed

text \<open>
  C3. A chart or table is on the page only with a frame that is not empty, in every run.
  When the query of the customer, sales or time-series report answers an empty frame, the
  run completes and shows the header and no chart or table. In the order report, when the
  metrics can be shown and the status query answers a frame that is empty or has its
  columns, the run goes on to the last panel (its heading is shown and its query issued);
  when that query too answers a frame that is empty or has its columns, the run completes
  and the charts on the page are exactly those of the frames that are not empty.
\<close>

theorem empty_result_suppresses_chart:
  "(\<forall>x \<in> set (out (snd (run_main e sel))). shows_data (snd x)) \<and>
   (connection e = Inr conn \<longrightarrow>
     (conn sql_customer_states 600 = Inr d1 \<and> df_empty d1 \<longrightarrow>
        run_main e '' Customer Analysis'' =
          (Inr (), \<lparr>out = page_head @ [(Page, Header ''Customer Analysis'')] @ page_foot,
                    issued = [(sql_customer_states, 600)]\<rparr>)) \<and>
     (conn sql_category_revenue 600 = Inr d2 \<and> df_empty d2 \<longrightarrow>
        run_main e '' Sales & Revenue'' =
          (Inr (), \<lparr>out = page_head @ [(Page, Header ''Sales & Revenue Analysis'')] @ page_foot,
                    issued = [(sql_category_revenue, 600)]\<rparr>)) \<and>
     (conn sql_monthly 600 = Inr d3 \<and> df_empty d3 \<longrightarrow>
        run_main e '' Time Series Analysis'' =
          (Inr (), \<lparr>out = page_head @ [(Page, Header ''Time Series Analysis'')] @ page_foot,
                    issued = [(sql_monthly, 600)]\<rparr>)) \<and>
     (order_metrics_ready e conn \<and> conn sql_orders_by_status 600 = Inr d4 \<and>
      (df_empty d4 \<or> set [''Status'', ''Count''] \<subseteq> set (df_columns d4)) \<longrightarrow>
        (Page, Subheader time_heading) \<in> set (out (snd (run_main e '' Order Analysis''))) \<and>
        (sql_orders_over_time, 600) \<in> set (issued (snd (run_main e '' Order Analysis''))) \<and>
        (conn sql_orders_over_time 600 = Inr d5 \<and>
         (df_empty d5 \<or> set [''Month'', ''Order Count''] \<subseteq> set (df_columns d5)) \<longrightarrow>
           fst (run_main e '' Order Analysis'') = Inr () \<and>
           filter is_chart (map snd (out (snd (run_main e '' Order Analysis'')))) =
             status_charts d4 @ time_charts d5)))"
proof -
  note o1 = run_order_analysis(1) [of e conn d4]
  note o2 = run_order_analysis(2) [of e conn d4]
  note o3 = run_order_analysis(3) [of e conn d4 d5]
  show ?thesis
    using shows_data_run [of e sel] run_customer_empty [of e conn d1]
      run_sales_empty [of e conn d2] run_time_series_empty [of e conn d3] o1 o2 o3
    by blast
qed

theorem empty_result_suppresses_chart_witness:
  "run_main empty_shop '' Customer Analysis'' =
     (Inr (), \<lparr>out = page_head @ [(Page, Header ''Customer Analysis'')] @ page_foot,
               issued = [(sql_customer_states, 600)]\<rparr>) \<and>
   run_main empty_shop '' Sales & Revenue'' =
     (Inr (), \<lparr>out = page_head @ [(Page, Header ''Sales & Revenue Analysis'')] @ page_foot,
               issued = [(sql_category_revenue, 600)]\<rparr>) \<and>
   run_main empty_shop '' Time Series Analysis'' =
     (Inr (), \<lparr>out = page_head @ [(Page, Header ''Time Series Analysis'')] @ page_foot,
               issued = [(sql_monthly, 600)]\<rparr>) \<and>
   fst (run_main bare_shop '' Order Analysis'') = Inr () \<and>
   filter is_chart (map snd (out (snd (run_main bare_shop '' Order Analysis'')))) = [] \<and>
   fst (run_main half_shop '' Order Analysis'') = Inr () \<and>
   filter is_chart (map snd (out (snd (run_main half_shop '' Order Analysis'')))) =
     [status_chart \<lparr>df_columns = [''Status'', ''Count''],
        df_rows = [[VStr ''delivered'', VInt 45], [VStr ''shipped'', VInt 5]]\<rparr>]"
proof -
  define ce where "ce = table_conn
     ([(sql_total_customers, scalar (VInt 0)),
       (sql_unique_orders, scalar (VInt 0)),
       (sql_order_records, scalar (VInt 0)),
       (sql_total_revenue, scalar VNone),
       (sql_active_customers, scalar (VInt 0)),
       (sql_avg_order_value, scalar VNone),
       (sql_total_products, scalar (VInt 0))] @ chart_rows_empty)"
  define cb where "cb = table_conn (metric_rows @ chart_rows_empty)"
  define ch where "ch = table_conn
     (metric_rows @ (sql_orders_over_time, no_rows [''Month'', ''Order Count'']) # chart_rows)"
  define st where "st = \<lparr>df_columns = [''Status'', ''Count''],
        df_rows = [[VStr ''delivered'', VInt 45], [VStr ''shipped'', VInt 5]]\<rparr>"
  have emp: "\<And>cols. df_empty (no_rows cols)"
    by (simp add: df_empty_def no_rows_def)
  have e0: "connection empty_shop = Inr ce"
    by (simp add: empty_shop_def sample_env_def ce_def)
  have e1: "ce sql_customer_states 600 = Inr (no_rows [''State'', ''Customer Count''])"
    by (simp add: ce_def table_defs)
  have e2: "ce sql_category_revenue 600 = Inr (no_rows [''Category'', ''Revenue''])"
    by (simp add: ce_def table_defs)
  have e3: "ce sql_monthly 600 = Inr (no_rows [''Month'', ''Revenue'', ''Order Count''])"
    by (simp add: ce_def table_defs)
  have b0: "connection bare_shop = Inr cb"
    by (simp add: bare_shop_def sample_env_def cb_def)
  have b1: "order_metrics_ready bare_shop cb"
    by (simp add: order_metrics_ready_def metric_ready_def cb_def iloc00_def bare_shop_def
        sample_env_def table_defs)
  have b4: "cb sql_orders_by_status 600 = Inr (no_rows [''Status'', ''Count''])"
    by (simp add: cb_def table_defs)
  have b5: "cb sql_orders_over_time 600 = Inr (no_rows [''Month'', ''Order Count''])"
    by (simp add: cb_def table_defs)
  have h0: "connection half_shop = Inr ch"
    by (simp add: half_shop_def sample_env_def ch_def)
  have h1: "order_metrics_ready half_shop ch"
    by (simp add: order_metrics_ready_def metric_ready_def ch_def iloc00_def half_shop_def
        sample_env_def table_defs)
  have h4: "ch sql_orders_by_status 600 = Inr st"
    by (simp add: ch_def st_def table_defs)
  have h4c: "set [''Status'', ''Count''] \<subseteq> set (df_columns st)" "\<not> df_empty st"
    by (simp_all add: st_def df_empty_def)
  have h5: "ch sql_orders_over_time 600 = Inr (no_rows [''Month'', ''Order Count''])"
    by (simp add: ch_def table_defs)
  note te = empty_result_suppresses_chart
    [of empty_shop "'' Customer Analysis''" ce "no_rows [''State'', ''Customer Count'']"
      "no_rows [''Category'', ''Revenue'']" "no_rows [''Month'', ''Revenue'', ''Order Count'']"
      "no_rows [''Status'', ''Count'']" "no_rows [''Month'', ''Order Count'']"]
  note tb = empty_result_suppresses_chart
    [of bare_shop "'' Order Analysis''" cb "no_rows [''State'', ''Customer Count'']"
      "no_rows [''Category'', ''Revenue'']" "no_rows [''Month'', ''Revenue'', ''Order Count'']"
      "no_rows [''Status'', ''Count'']" "no_rows [''Month'', ''Order Count'']"]
  note th = empty_result_suppresses_chart
    [of half_shop "'' Order Analysis''" ch "no_rows [''State'', ''Customer Count'']"
      "no_rows [''Category'', ''Revenue'']" "no_rows [''Month'', ''Revenue'', ''Order Count'']"
      st "no_rows [''Month'', ''Order Count'']"]
  have A: "run_main empty_shop '' Customer Analysis'' =
     (Inr (), \<lparr>out = page_head @ [(Page, Header ''Customer Analysis'')] @ page_foot,
               issued = [(sql_customer_states, 600)]\<rparr>)"
    using te e0 e1 emp by blast
  have B: "run_main empty_shop '' Sales & Revenue'' =
     (Inr (), \<lparr>out = page_head @ [(Page, Header ''Sales & Revenue Analysis'')] @ page_foot,
               issued = [(sql_category_revenue, 600)]\<rparr>)"
    using te e0 e2 emp by blast
  have C: "run_main empty_shop '' Time Series Analysis'' =
     (Inr (), \<lparr>out = page_head @ [(Page, Header ''Time Series Analysis'')] @ page_foot,
               issued = [(sql_monthly, 600)]\<rparr>)"
    using te e0 e3 emp by blast
  have D: "fst (run_main bare_shop '' Order Analysis'') = Inr () \<and>
      filter is_chart (map snd (out (snd (run_main bare_shop '' Order Analysis'')))) =
        status_charts (no_rows [''Status'', ''Count'']) @ time_charts (no_rows [''Month'', ''Order Count''])"
    using tb b0 b1 b4 b5 emp by blast
  have E: "fst (run_main half_shop '' Order Analysis'') = Inr () \<and>
      filter is_chart (map snd (out (snd (run_main half_shop '' Order Analysis'')))) =
        status_charts st @ time_charts (no_rows [''Month'', ''Order Count''])"
    using th h0 h1 h4 h4c h5 emp by blast
  show ?thesis
    using A B C D E h4c emp by (simp add: status_charts_def time_charts_def st_def)
qed

text \<open>
  C4. When ``Customer Analysis'' is selected and the query on the customers table answers
  no rows, the run completes without error and the page holds the head, the header
  ``Customer Analysis'' and the footer: no chart and no table.
\<close>

theorem customer_analysis_without_rows:
  assumes "connection e = Inr conn" and "conn sql_customer_states 600 = Inr df"
    and "df_rows df = []"
  shows "run_main e '' Customer Analysis'' =
     (Inr (),
      \<lparr>out = page_head @ [(Page, Header ''Customer Analysis'')] @ page_foot,
       issued = [(sql_customer_states, 600)]\<rparr>)"
proof -
  have "df_empty df" using assms(3) by (simp add: df_empty_def)
  note step = customer_analysis_empty [of conn df, OF assms(2) this]
  have "dispatch e conn '' Customer Analysis'' = customer_analysis conn"
    by (simp add: dispatch_def)
  then show ?thesis
    by (simp add: run_main_connected [OF assms(1)] bind_def step footer_run)
qed

theorem customer_analysis_without_rows_witness:
  "run_main bare_shop '' Customer Analysis'' =
     (Inr (),
      \<lparr>out = page_head @ [(Page, Header ''Customer Analysis'')] @ page_foot,
       issued = [(sql_customer_states, 600)]\<rparr>) \<and>
   list_all (\<lambda>x. \<not> is_chart (snd x)) (page_head @ [(Page, Header ''Customer Analysis'')] @ page_foot)"
proof -
  have "connection bare_shop = Inr (table_conn (metric_rows @ chart_rows_empty))"
    by (simp add: bare_shop_def sample_env_def)
  moreover have "table_conn (metric_rows @ chart_rows_empty) sql_customer_states 600 =
      Inr (no_rows [''State'', ''Customer Count''])"
    by (simp add: table_conn_def metric_rows_def chart_rows_empty_def sql_defs)
  moreover have "df_rows (no_rows [''State'', ''Customer Count'']) = []"
    by (simp add: no_rows_def)
  ultimately have "run_main bare_shop '' Customer Analysis'' =
     (Inr (),
      \<lparr>out = page_head @ [(Page, Header ''Customer Analysis'')] @ page_foot,
       issued = [(sql_customer_states, 600)]\<rparr>)"
    by (rule customer_analysis_without_rows)
  then show ?thesis
    using page_head_no_chart page_foot_no_chart by (auto simp: list_all_iff)
qed




text \<open>
  C7. Every query that any run issues, for any selection, is issued with a time-to-live of
  600 seconds.
\<close>

theorem every_query_has_ttl_600:
  "\<forall>(q, t) \<in> set (issued (snd (run_main e sel))). t = 600"
proof -
  have "set (issued (snd (run_main e sel))) \<subseteq> set (plan sel)"
    using issued_prefix_plan [of e sel] by (rule set_mono_prefix)
  then show ?thesis by (auto simp: plan_def)
qed

theorem every_query_has_ttl_600_witness:
  "(sql_total_customers, 600) \<in> set (issued (snd (run_main bare_shop '' Overview''))) \<and>
   snd ` set (issued (snd (run_main bare_shop '' Overview''))) = {600}"
proof -
  have every: "\<forall>(q, t) \<in> set (issued (snd (run_main bare_shop '' Overview''))). t = 600"
    by (rule every_query_has_ttl_600)
  have first: "(sql_total_customers, 600) \<in> set (issued (snd (run_main bare_shop '' Overview'')))"
    by (simp add: bare_overview_issued plan_def report_queries_def)
  have "snd ` set (issued (snd (run_main bare_shop '' Overview''))) = {600}"
    using every first by force
  with first show ?thesis by simp
qed

text \<open>
  C10. For a selection that is none of the five values (each of which begins with a space),
  no branch of the dispatch runs: no query is issued, no error is raised, and the page
  holds what precedes the dispatch (title, rule, connection notice and sidebar) followed by
  the footer.
\<close>

theorem unknown_selection_renders_frame_only:
  "connection e = Inr conn \<Longrightarrow> sel \<notin> set analysis_options \<Longrightarrow>
   fst (run_main e sel) = Inr () \<and>
   issued (snd (run_main e sel)) = [] \<and>
   out (snd (run_main e sel)) = page_head @ page_foot"
  by (simp add: run_main_connected dispatch_other ret_bind footer_run)

theorem unknown_selection_renders_frame_only_witness:
  "''Overview'' \<notin> set analysis_options \<and>
   fst (run_main bare_shop ''Overview'') = Inr () \<and>
   issued (snd (run_main bare_shop ''Overview'')) = [] \<and>
   out (snd (run_main bare_shop ''Overview'')) = page_head @ page_foot"
  using unknown_selection_renders_frame_only
    [of bare_shop "table_conn (metric_rows @ chart_rows_empty)" "''Overview''"]
  by (simp add: bare_shop_def sample_env_def analysis_options_def)

end
